theory Spec2Isabelle
  imports Main
begin

section \<open>Python values, tensors and errors\<close>

text \<open>
  The exceptions that the modelled code can raise. A function that can raise returns
  \<open>error + 'a\<close>, with \<open>Inl\<close> for the exception.
\<close>

datatype error = AssertionError | AttributeError | TypeError | KeyError | IndexError | RuntimeError

datatype device = CPU | CUDA

text \<open>
  A tensor of the tensor library: the device that holds it, its shape and its elements in
  row-major order. The element type is a parameter: the containers only move elements.
\<close>

datatype 'a tensor = Tensor (device: device) (shape: "nat list") (data: "'a list")

definition wf_tensor :: "'a tensor \<Rightarrow> bool" where
  "wf_tensor t = (length (data t) = prod_list (shape t))"

text \<open>
  The Python objects that can be bound to a field of a container: a tensor, a list of
  objects, or an object that is neither (\<open>None\<close> stands for all of them).
\<close>

datatype 'a pyobj = PTensor "'a tensor" | PList "'a pyobj list" | PNone

fun isinstance_Tensor :: "'a pyobj \<Rightarrow> bool" where
  "isinstance_Tensor (PTensor t) = True"
| "isinstance_Tensor _ = False"

subsection \<open>Dictionaries\<close>

text \<open>
  A Python \<open>dict\<close> keeps its keys in insertion order and the code compares key lists, so a
  dictionary is an association list. \<open>setitem\<close> is \<open>d[k] = v\<close>: an existing key keeps its
  place, a new key goes to the end.
\<close>

type_synonym 'v pydict = "(string \<times> 'v) list"

definition keys :: "'v pydict \<Rightarrow> string list" where
  "keys d = map fst d"

fun setitem :: "'v pydict \<Rightarrow> string \<Rightarrow> 'v \<Rightarrow> 'v pydict" where
  "setitem [] k v = [(k, v)]"
| "setitem ((k', v') # d) k v = (if k' = k then (k', v) # d else (k', v') # setitem d k v)"

definition getitem :: "'v pydict \<Rightarrow> string \<Rightarrow> error + 'v" where
  "getitem d k = (case map_of d k of None \<Rightarrow> Inl KeyError | Some v \<Rightarrow> Inr v)"

definition contains :: "'v pydict \<Rightarrow> string \<Rightarrow> bool" where
  "contains d k = (k \<in> set (keys d))"

text \<open>\<open>dict(items)\<close>: the dictionary built by storing the items one after the other.\<close>

definition dict_of :: "(string \<times> 'v) list \<Rightarrow> 'v pydict" where
  "dict_of items = fold (\<lambda>(k, v) d. setitem d k v) items []"


subsection \<open>Container objects\<close>

text \<open>
  An instance of one of the container classes. The mixins keep their fields in the
  attributes \<open>__tensors__\<close> and \<open>__list_tensors__\<close>; an attribute that was never set is
  \<open>None\<close> here, and reading it raises \<open>AttributeError\<close>. Every store into
  \<open>__list_tensors__\<close> is guarded by \<open>isinstance(value, list)\<close> or stores a list
  comprehension, so its values are lists.
\<close>

record 'a obj =
  tensors_attr :: "'a pyobj pydict option"
  list_tensors_attr :: "'a pyobj list pydict option"

definition get_tensors :: "'a obj \<Rightarrow> error + 'a pyobj pydict" where
  "get_tensors self = (case tensors_attr self of None \<Rightarrow> Inl AttributeError | Some d \<Rightarrow> Inr d)"

definition get_list_tensors :: "'a obj \<Rightarrow> error + 'a pyobj list pydict" where
  "get_list_tensors self =
     (case list_tensors_attr self of None \<Rightarrow> Inl AttributeError | Some d \<Rightarrow> Inr d)"

text \<open>The argument of \<open>add\<close>: a dictionary or another container.\<close>

datatype 'a dict_or_obj = ADict "'a pyobj pydict" | AObj "'a obj"

section \<open>The tensor library\<close>

text \<open>
  \<open>torch.cat\<close>, \<open>torch.stack\<close> and \<open>Tensor.select\<close> belong to the tensor library, not to
  this repository. They are modelled after the library's documentation, on shapes and
  row-major data: a dimension argument counts from the end when negative and raises
  \<open>IndexError\<close> out of range; tensors of different devices or of incompatible shapes raise
  \<open>RuntimeError\<close>.
\<close>

definition wrap_dim :: "int \<Rightarrow> nat \<Rightarrow> error + nat" where
  "wrap_dim dim n =
     (if - int n \<le> dim \<and> dim < int n
      then Inr (nat (if dim < 0 then dim + int n else dim))
      else Inl IndexError)"

text \<open>The \<open>i\<close>-th block of \<open>n\<close> consecutive elements.\<close>

definition chunk :: "nat \<Rightarrow> nat \<Rightarrow> 'a list \<Rightarrow> 'a list" where
  "chunk n i xs = take n (drop (i * n) xs)"

definition same_except :: "nat \<Rightarrow> nat list \<Rightarrow> nat list \<Rightarrow> bool" where
  "same_except d s s' =
     (length s = length s' \<and> take d s = take d s' \<and> drop (Suc d) s = drop (Suc d) s')"

text \<open>The results, for a dimension \<open>d\<close> that is in range and tensors that fit.\<close>

definition cat_result :: "'a tensor list \<Rightarrow> nat \<Rightarrow> 'a tensor" where
  "cat_result ns d =
     (let s = shape (hd ns);
          outer = prod_list (take d s);
          inner = prod_list (drop (Suc d) s)
      in Tensor (device (hd ns))
           (s[d := sum_list (map (\<lambda>t. shape t ! d) ns)])
           (concat (map (\<lambda>i. concat (map (\<lambda>t. chunk (shape t ! d * inner) i (data t)) ns))
              [0..<outer])))"

definition stack_result :: "'a tensor list \<Rightarrow> nat \<Rightarrow> 'a tensor" where
  "stack_result ts d =
     (let s = shape (hd ts);
          outer = prod_list (take d s);
          inner = prod_list (drop d s)
      in Tensor (device (hd ts))
           (take d s @ [length ts] @ drop d s)
           (concat (map (\<lambda>i. concat (map (\<lambda>t. chunk inner i (data t)) ts)) [0..<outer])))"


text \<open>
  The conditions the library checks: one device for all tensors; for \<open>torch.stack\<close> one
  shape; for \<open>torch.cat\<close> shapes that agree in every dimension but \<open>d\<close>.
\<close>

definition same_device :: "'a tensor \<Rightarrow> 'a tensor list \<Rightarrow> bool" where
  "same_device t0 ts = list_all (\<lambda>t. device t = device t0) ts"

definition same_shape :: "'a tensor \<Rightarrow> 'a tensor list \<Rightarrow> bool" where
  "same_shape t0 ts = list_all (\<lambda>t. shape t = shape t0) ts"

definition same_shape_except :: "nat \<Rightarrow> 'a tensor \<Rightarrow> 'a tensor list \<Rightarrow> bool" where
  "same_shape_except d t0 ts = list_all (\<lambda>t. same_except d (shape t0) (shape t)) ts"

text \<open>
  \<open>torch.cat\<close> skips the tensors of shape \<open>(0,)\<close>; the others must have one dimension at
  least and agree in every dimension but \<open>dim\<close>.
\<close>

definition torch_cat :: "'a tensor list \<Rightarrow> int \<Rightarrow> error + 'a tensor" where
  "torch_cat ts dim =
     (if ts = [] then Inl RuntimeError
      else if \<not> same_device (hd ts) ts then Inl RuntimeError
      else
        (case filter (\<lambda>t. shape t \<noteq> [0]) ts of
           [] \<Rightarrow> Inr (Tensor (device (hd ts)) [0] [])
         | t0 # rest \<Rightarrow>
             if shape t0 = [] then Inl RuntimeError
             else
               (case wrap_dim dim (length (shape t0)) of
                  Inl e \<Rightarrow> Inl e
                | Inr d \<Rightarrow>
                    if \<not> same_shape_except d t0 rest then Inl RuntimeError
                    else Inr (cat_result (t0 # rest) d))))"

text \<open>\<open>torch.stack\<close>: all tensors have the same shape; the new axis goes to \<open>dim\<close>.\<close>

definition torch_stack :: "'a tensor list \<Rightarrow> int \<Rightarrow> error + 'a tensor" where
  "torch_stack ts dim =
     (if ts = [] then Inl RuntimeError
      else
        (case wrap_dim dim (Suc (length (shape (hd ts)))) of
           Inl e \<Rightarrow> Inl e
         | Inr d \<Rightarrow>
             if \<not> same_shape (hd ts) ts \<or> \<not> same_device (hd ts) ts then Inl RuntimeError
             else Inr (stack_result ts d)))"


text \<open>
  The library functions called on Python objects: an argument that is not a tensor raises
  \<open>TypeError\<close>, and an object without the method raises \<open>AttributeError\<close>.
\<close>

fun the_tensors :: "'a pyobj list \<Rightarrow> error + 'a tensor list" where
  "the_tensors [] = Inr []"
| "the_tensors (PTensor t # vs) =
     (case the_tensors vs of Inl e \<Rightarrow> Inl e | Inr ts \<Rightarrow> Inr (t # ts))"
| "the_tensors (_ # vs) = Inl TypeError"

definition py_cat :: "'a pyobj list \<Rightarrow> int \<Rightarrow> error + 'a pyobj" where
  "py_cat vs dim =
     (case the_tensors vs of
        Inl e \<Rightarrow> Inl e
      | Inr ts \<Rightarrow> (case torch_cat ts dim of Inl e \<Rightarrow> Inl e | Inr t \<Rightarrow> Inr (PTensor t)))"

definition py_stack :: "'a pyobj list \<Rightarrow> int \<Rightarrow> error + 'a pyobj" where
  "py_stack vs dim =
     (case the_tensors vs of
        Inl e \<Rightarrow> Inl e
      | Inr ts \<Rightarrow> (case torch_stack ts dim of Inl e \<Rightarrow> Inl e | Inr t \<Rightarrow> Inr (PTensor t)))"

fun to_device :: "device \<Rightarrow> 'a pyobj \<Rightarrow> error + 'a pyobj" where
  "to_device dv (PTensor t) = Inr (PTensor (Tensor dv (shape t) (data t)))"
| "to_device dv _ = Inl AttributeError"

section \<open>TensorsMixin\<close>

text \<open>
  \<open>union\<close> and \<open>stack\<close> are class methods: they build their result with \<open>cls()\<close> and
  \<open>cls(**kwargs)\<close>, where \<open>cls\<close> is the class they are called on. The model passes the
  constructor of that class as the function \<open>cls\<close> from the keyword arguments to the new
  object.

  \<open>TensorsInputs.__init__\<close> (its parameter \<open>inputs\<close> left at the default): the keyword
  arguments become \<open>__tensors__\<close>, with no check of the values.
\<close>

definition TensorsInputs :: "'a pyobj pydict \<Rightarrow> error + 'a obj" where
  "TensorsInputs kwargs =
     Inr \<lparr>tensors_attr = Some (dict_of kwargs), list_tensors_attr = None\<rparr>"

text \<open>\<open>TensorsMixin.__post_init__\<close>: every value of \<open>__tensors__\<close> must be a tensor.\<close>

definition TensorsMixin_post_init :: "'a obj \<Rightarrow> error + 'a obj" where
  "TensorsMixin_post_init self =
     (let self1 = (if tensors_attr self = None then self\<lparr>tensors_attr := Some []\<rparr> else self)
      in case get_tensors self1 of
           Inl e \<Rightarrow> Inl e
         | Inr d \<Rightarrow> if list_all (\<lambda>(key, tensor). isinstance_Tensor tensor) d then Inr self1
                    else Inl AssertionError)"

text \<open>
  \<open>LossOutputs\<close> is a dataclass with the one field \<open>loss\<close>, which has no default: the
  generated \<open>__init__\<close> takes exactly the keyword \<open>loss\<close> and raises \<open>TypeError\<close> on any
  other set of keywords. \<open>TensorsOutputs.__post_init__\<close> then collects the fields into
  \<open>__tensors__\<close> and calls \<open>TensorsMixin.__post_init__\<close>.
\<close>

definition LossOutputs :: "'a pyobj pydict \<Rightarrow> error + 'a obj" where
  "LossOutputs kwargs =
     (if set (keys kwargs) \<noteq> {''loss''} then Inl TypeError
      else
        (case getitem kwargs ''loss'' of
           Inl e \<Rightarrow> Inl e
         | Inr loss \<Rightarrow>
             TensorsMixin_post_init
               \<lparr>tensors_attr = Some [(''loss'', loss)], list_tensors_attr = None\<rparr>))"

text \<open>\<open>for tensors in list_tensors: assert keys == list(tensors.__tensors__.keys())\<close>\<close>

fun check_keys :: "string list \<Rightarrow> 'a obj list \<Rightarrow> error + unit" where
  "check_keys ks [] = Inr ()"
| "check_keys ks (b # bs) =
     (case get_tensors b of
        Inl e \<Rightarrow> Inl e
      | Inr d \<Rightarrow> if ks = keys d then check_keys ks bs else Inl AssertionError)"

text \<open>\<open>[tensors.__tensors__[key] for tensors in list_tensors]\<close>\<close>

fun gather :: "string \<Rightarrow> 'a obj list \<Rightarrow> error + 'a pyobj list" where
  "gather key [] = Inr []"
| "gather key (b # bs) =
     (case get_tensors b of
        Inl e \<Rightarrow> Inl e
      | Inr d \<Rightarrow>
          (case getitem d key of
             Inl e \<Rightarrow> Inl e
           | Inr v \<Rightarrow> (case gather key bs of Inl e \<Rightarrow> Inl e | Inr vs \<Rightarrow> Inr (v # vs))))"

text \<open>
  The loop \<open>for key in keys: new_tensors[key] = op([...], dim=dim)\<close> of \<open>union\<close>
  (\<open>op\<close> is \<open>torch.cat\<close>) and of \<open>stack\<close> (\<open>op\<close> is \<open>torch.stack\<close>).
\<close>

fun new_tensors_loop ::
  "('a pyobj list \<Rightarrow> int \<Rightarrow> error + 'a pyobj) \<Rightarrow> string list \<Rightarrow> 'a obj list \<Rightarrow> int \<Rightarrow>
   'a pyobj pydict \<Rightarrow> error + 'a pyobj pydict" where
  "new_tensors_loop op [] bs dim new_tensors = Inr new_tensors"
| "new_tensors_loop op (key # ks) bs dim new_tensors =
     (case gather key bs of
        Inl e \<Rightarrow> Inl e
      | Inr new_tensor \<Rightarrow>
          (case op new_tensor dim of
             Inl e \<Rightarrow> Inl e
           | Inr t \<Rightarrow> new_tensors_loop op ks bs dim (setitem new_tensors key t)))"

definition TensorsMixin_union ::
  "('a pyobj pydict \<Rightarrow> error + 'a obj) \<Rightarrow> 'a obj list \<Rightarrow> int \<Rightarrow> error + 'a obj" where
  "TensorsMixin_union cls list_tensors dim =
     (if length list_tensors = 0 then cls []
      else
        (case get_tensors (hd list_tensors) of
           Inl e \<Rightarrow> Inl e
         | Inr first_tensors \<Rightarrow>
             (case check_keys (keys first_tensors) list_tensors of
                Inl e \<Rightarrow> Inl e
              | Inr _ \<Rightarrow>
                  (case new_tensors_loop py_cat (keys first_tensors) list_tensors dim [] of
                     Inl e \<Rightarrow> Inl e
                   | Inr new_tensors \<Rightarrow> cls new_tensors))))"

definition TensorsMixin_stack ::
  "('a pyobj pydict \<Rightarrow> error + 'a obj) \<Rightarrow> 'a obj list \<Rightarrow> int \<Rightarrow> error + 'a obj" where
  "TensorsMixin_stack cls list_tensors dim =
     (if length list_tensors = 0 then cls []
      else
        (case get_tensors (hd list_tensors) of
           Inl e \<Rightarrow> Inl e
         | Inr first_tensors \<Rightarrow>
             (case check_keys (keys first_tensors) list_tensors of
                Inl e \<Rightarrow> Inl e
              | Inr _ \<Rightarrow>
                  (case new_tensors_loop py_stack (keys first_tensors) list_tensors dim [] of
                     Inl e \<Rightarrow> Inl e
                   | Inr new_tensors \<Rightarrow> cls new_tensors))))"

text \<open>
  \<open>add\<close>: on a key that is already present the code executes
  \<open>assert ValueError(...)\<close>. The asserted expression is an exception object, which is
  true, so the statement does nothing and the loop goes on to the next item.
\<close>

fun TensorsMixin_add_loop :: "'a obj \<Rightarrow> 'a pyobj pydict \<Rightarrow> error + 'a obj" where
  "TensorsMixin_add_loop self [] = Inr self"
| "TensorsMixin_add_loop self ((key, value) # rest) =
     (if \<not> isinstance_Tensor value then Inl AssertionError
      else
        (case get_tensors self of
           Inl e \<Rightarrow> Inl e
         | Inr d \<Rightarrow>
             if contains d key then TensorsMixin_add_loop self rest
             else TensorsMixin_add_loop (self\<lparr>tensors_attr := Some (setitem d key value)\<rparr>) rest))"

definition TensorsMixin_add :: "'a obj \<Rightarrow> 'a dict_or_obj \<Rightarrow> error + 'a obj" where
  "TensorsMixin_add self tensors =
     (case tensors of
        ADict tensors_dict \<Rightarrow> TensorsMixin_add_loop self tensors_dict
      | AObj other \<Rightarrow>
          (case get_tensors other of
             Inl e \<Rightarrow> Inl e
           | Inr tensors_dict \<Rightarrow> TensorsMixin_add_loop self tensors_dict))"

definition TensorsMixin_dict :: "'a obj \<Rightarrow> error + 'a pyobj pydict" where
  "TensorsMixin_dict self = get_tensors self"

text \<open>
  \<open>cpu\<close> and \<open>cuda\<close>. The first loop builds \<open>new_tensors\<close> from \<open>value.cpu()\<close>; with
  \<open>inplace\<close> the second loop stores every new value into \<open>self.__tensors__\<close> and the
  method returns \<open>None\<close>, otherwise \<open>type(self)(**new_tensors)\<close> is returned, for an
  object of the class \<open>TensorsInputs\<close>. The result is the object after the call and the
  returned container, if any.
\<close>

fun move_values ::
  "device \<Rightarrow> 'a pyobj pydict \<Rightarrow> 'a pyobj pydict \<Rightarrow> error + 'a pyobj pydict" where
  "move_values dv [] new_tensors = Inr new_tensors"
| "move_values dv ((key, value) # rest) new_tensors =
     (case to_device dv value of
        Inl e \<Rightarrow> Inl e
      | Inr new_value \<Rightarrow> move_values dv rest (setitem new_tensors key new_value))"

text \<open>\<open>for key, value in new.items(): self.__tensors__[key] = value\<close>\<close>

fun store_tensors :: "'a obj \<Rightarrow> 'a pyobj pydict \<Rightarrow> error + 'a obj" where
  "store_tensors self [] = Inr self"
| "store_tensors self ((key, value) # rest) =
     (case get_tensors self of
        Inl e \<Rightarrow> Inl e
      | Inr d \<Rightarrow> store_tensors (self\<lparr>tensors_attr := Some (setitem d key value)\<rparr>) rest)"

definition TensorsMixin_to ::
  "device \<Rightarrow> 'a obj \<Rightarrow> bool \<Rightarrow> error + 'a obj \<times> 'a obj option" where
  "TensorsMixin_to dv self inplace =
     (case get_tensors self of
        Inl e \<Rightarrow> Inl e
      | Inr d \<Rightarrow>
          (case move_values dv d [] of
             Inl e \<Rightarrow> Inl e
           | Inr new_tensors \<Rightarrow>
               if inplace
               then (case store_tensors self new_tensors of
                       Inl e \<Rightarrow> Inl e
                     | Inr self' \<Rightarrow> Inr (self', None))
               else (case TensorsInputs new_tensors of
                       Inl e \<Rightarrow> Inl e
                     | Inr r \<Rightarrow> Inr (self, Some r))))"

definition TensorsMixin_cpu :: "'a obj \<Rightarrow> bool \<Rightarrow> error + 'a obj \<times> 'a obj option" where
  "TensorsMixin_cpu self inplace = TensorsMixin_to CPU self inplace"

definition TensorsMixin_cuda :: "'a obj \<Rightarrow> bool \<Rightarrow> error + 'a obj \<times> 'a obj option" where
  "TensorsMixin_cuda self inplace = TensorsMixin_to CUDA self inplace"

section \<open>ListTensorsMixin\<close>

text \<open>
  \<open>__post_init__\<close>: the first loop wraps a field that is a single tensor into a list, the
  second asserts that every field is a list and that every element is a tensor. The
  dictionary that the constructor has stored in \<open>__list_tensors__\<close> is the argument
  \<open>raw\<close> (\<open>None\<close> when the attribute is not set).
\<close>

fun normalize_value :: "'a pyobj \<Rightarrow> 'a pyobj" where
  "normalize_value (PTensor t) = PList [PTensor t]"
| "normalize_value v = v"

fun post_init_assert :: "'a pyobj pydict \<Rightarrow> error + 'a pyobj list pydict" where
  "post_init_assert [] = Inr []"
| "post_init_assert ((key, PList list_tensor) # rest) =
     (if list_all isinstance_Tensor list_tensor
      then (case post_init_assert rest of Inl e \<Rightarrow> Inl e | Inr d \<Rightarrow> Inr ((key, list_tensor) # d))
      else Inl AssertionError)"
| "post_init_assert ((key, _) # rest) = Inl AssertionError"

definition ListTensorsMixin_post_init ::
  "'a obj \<Rightarrow> 'a pyobj pydict option \<Rightarrow> error + 'a obj" where
  "ListTensorsMixin_post_init self raw =
     (let list_tensors = (case raw of None \<Rightarrow> [] | Some d \<Rightarrow> d);
          new_list_tensors =
            fold (\<lambda>(key, value) d. setitem d key (normalize_value value)) list_tensors []
      in case post_init_assert new_list_tensors of
           Inl e \<Rightarrow> Inl e
         | Inr d \<Rightarrow> Inr (self\<lparr>list_tensors_attr := Some d\<rparr>))"

text \<open>
  \<open>ListTensorsInputs.__init__\<close> (its parameter \<open>inputs\<close> left at the default): the
  keyword arguments become \<open>__list_tensors__\<close>, then \<open>ListTensorsMixin.__post_init__\<close> runs.
\<close>

definition ListTensorsInputs :: "'a pyobj pydict \<Rightarrow> error + 'a obj" where
  "ListTensorsInputs kwargs =
     ListTensorsMixin_post_init \<lparr>tensors_attr = None, list_tensors_attr = None\<rparr>
       (Some (dict_of kwargs))"

text \<open>A dictionary of lists as keyword arguments.\<close>

definition as_kwargs :: "'a pyobj list pydict \<Rightarrow> 'a pyobj pydict" where
  "as_kwargs d = map (\<lambda>(k, xs). (k, PList xs)) d"

fun check_list_keys :: "string list \<Rightarrow> 'a obj list \<Rightarrow> error + unit" where
  "check_list_keys ks [] = Inr ()"
| "check_list_keys ks (b # bs) =
     (case get_list_tensors b of
        Inl e \<Rightarrow> Inl e
      | Inr d \<Rightarrow> if ks = keys d then check_list_keys ks bs else Inl AssertionError)"

text \<open>\<open>[list_tensors.__list_tensors__[key] for list_tensors in list_of_list_tensors]\<close>\<close>

fun gather_lists :: "string \<Rightarrow> 'a obj list \<Rightarrow> error + 'a pyobj list list" where
  "gather_lists key [] = Inr []"
| "gather_lists key (b # bs) =
     (case get_list_tensors b of
        Inl e \<Rightarrow> Inl e
      | Inr d \<Rightarrow>
          (case getitem d key of
             Inl e \<Rightarrow> Inl e
           | Inr v \<Rightarrow> (case gather_lists key bs of Inl e \<Rightarrow> Inl e | Inr vs \<Rightarrow> Inr (v # vs))))"

text \<open>
  The loops over the keys: \<open>list(chain.from_iterable(new_list_tensor))\<close> is \<open>concat\<close>;
  \<open>stack\<close> first asserts that every gathered list has one element.
\<close>

fun union_lists_loop ::
  "string list \<Rightarrow> 'a obj list \<Rightarrow> 'a pyobj list pydict \<Rightarrow> error + 'a pyobj list pydict" where
  "union_lists_loop [] bs new_list_tensors = Inr new_list_tensors"
| "union_lists_loop (key # ks) bs new_list_tensors =
     (case gather_lists key bs of
        Inl e \<Rightarrow> Inl e
      | Inr new_list_tensor \<Rightarrow>
          union_lists_loop ks bs (setitem new_list_tensors key (concat new_list_tensor)))"

fun stack_lists_loop ::
  "string list \<Rightarrow> 'a obj list \<Rightarrow> 'a pyobj list pydict \<Rightarrow> error + 'a pyobj list pydict" where
  "stack_lists_loop [] bs new_list_tensors = Inr new_list_tensors"
| "stack_lists_loop (key # ks) bs new_list_tensors =
     (case gather_lists key bs of
        Inl e \<Rightarrow> Inl e
      | Inr new_list_tensor \<Rightarrow>
          if list_all (\<lambda>list_tensor. length list_tensor = 1) new_list_tensor
          then stack_lists_loop ks bs (setitem new_list_tensors key (concat new_list_tensor))
          else Inl AssertionError)"

definition ListTensorsMixin_union ::
  "('a pyobj pydict \<Rightarrow> error + 'a obj) \<Rightarrow> 'a obj list \<Rightarrow> int \<Rightarrow> error + 'a obj" where
  "ListTensorsMixin_union cls list_of_list_tensors dim =
     (if length list_of_list_tensors = 0 then cls []
      else
        (case get_list_tensors (hd list_of_list_tensors) of
           Inl e \<Rightarrow> Inl e
         | Inr first_list_tensors \<Rightarrow>
             (case check_list_keys (keys first_list_tensors) list_of_list_tensors of
                Inl e \<Rightarrow> Inl e
              | Inr _ \<Rightarrow>
                  (case union_lists_loop (keys first_list_tensors) list_of_list_tensors [] of
                     Inl e \<Rightarrow> Inl e
                   | Inr new_list_tensors \<Rightarrow> cls (as_kwargs new_list_tensors)))))"

definition ListTensorsMixin_stack ::
  "('a pyobj pydict \<Rightarrow> error + 'a obj) \<Rightarrow> 'a obj list \<Rightarrow> int \<Rightarrow> error + 'a obj" where
  "ListTensorsMixin_stack cls list_of_list_tensors dim =
     (if length list_of_list_tensors = 0 then cls []
      else
        (case get_list_tensors (hd list_of_list_tensors) of
           Inl e \<Rightarrow> Inl e
         | Inr first_list_tensors \<Rightarrow>
             (case check_list_keys (keys first_list_tensors) list_of_list_tensors of
                Inl e \<Rightarrow> Inl e
              | Inr _ \<Rightarrow>
                  (case stack_lists_loop (keys first_list_tensors) list_of_list_tensors [] of
                     Inl e \<Rightarrow> Inl e
                   | Inr new_list_tensors \<Rightarrow> cls (as_kwargs new_list_tensors)))))"

text \<open>
  \<open>add\<close>: as in \<open>TensorsMixin.add\<close>, \<open>assert ValueError(...)\<close> on a key that is present
  does nothing. The test \<open>isinstance(value, torch.Tensor)\<close> in the other branch comes after
  \<open>assert isinstance(value, list)\<close> and is never true.
\<close>

fun ListTensorsMixin_add_loop :: "'a obj \<Rightarrow> 'a pyobj pydict \<Rightarrow> error + 'a obj" where
  "ListTensorsMixin_add_loop self [] = Inr self"
| "ListTensorsMixin_add_loop self ((key, PList value) # rest) =
     (case get_list_tensors self of
        Inl e \<Rightarrow> Inl e
      | Inr d \<Rightarrow>
          if contains d key then ListTensorsMixin_add_loop self rest
          else ListTensorsMixin_add_loop
                 (self\<lparr>list_tensors_attr := Some (setitem d key value)\<rparr>) rest)"
| "ListTensorsMixin_add_loop self ((key, _) # rest) = Inl AssertionError"

definition ListTensorsMixin_add :: "'a obj \<Rightarrow> 'a dict_or_obj \<Rightarrow> error + 'a obj" where
  "ListTensorsMixin_add self list_tensors =
     (case list_tensors of
        ADict list_tensors_dict \<Rightarrow> ListTensorsMixin_add_loop self list_tensors_dict
      | AObj other \<Rightarrow>
          (case get_list_tensors other of
             Inl e \<Rightarrow> Inl e
           | Inr list_tensors_dict \<Rightarrow>
               ListTensorsMixin_add_loop self (as_kwargs list_tensors_dict)))"

definition ListTensorsMixin_dict :: "'a obj \<Rightarrow> error + 'a pyobj list pydict" where
  "ListTensorsMixin_dict self = get_list_tensors self"

text \<open>\<open>[_value.cpu() for _value in value]\<close>\<close>

fun move_list :: "device \<Rightarrow> 'a pyobj list \<Rightarrow> error + 'a pyobj list" where
  "move_list dv [] = Inr []"
| "move_list dv (v # vs) =
     (case to_device dv v of
        Inl e \<Rightarrow> Inl e
      | Inr v' \<Rightarrow> (case move_list dv vs of Inl e \<Rightarrow> Inl e | Inr vs' \<Rightarrow> Inr (v' # vs')))"

fun move_list_values ::
  "device \<Rightarrow> 'a pyobj list pydict \<Rightarrow> 'a pyobj list pydict \<Rightarrow> error + 'a pyobj list pydict" where
  "move_list_values dv [] new_list_tensors = Inr new_list_tensors"
| "move_list_values dv ((key, value) # rest) new_list_tensors =
     (case move_list dv value of
        Inl e \<Rightarrow> Inl e
      | Inr new_value \<Rightarrow> move_list_values dv rest (setitem new_list_tensors key new_value))"

text \<open>\<open>for key, value in new.items(): self.__list_tensors__[key] = value\<close>\<close>

fun store_list_tensors :: "'a obj \<Rightarrow> 'a pyobj list pydict \<Rightarrow> error + 'a obj" where
  "store_list_tensors self [] = Inr self"
| "store_list_tensors self ((key, value) # rest) =
     (case get_list_tensors self of
        Inl e \<Rightarrow> Inl e
      | Inr d \<Rightarrow>
          store_list_tensors (self\<lparr>list_tensors_attr := Some (setitem d key value)\<rparr>) rest)"

text \<open>
  \<open>ListTensorsMixin.cpu\<close>: with \<open>inplace\<close> its second loop is
  \<open>self.__tensors__[key] = value\<close>, a store into the attribute of the other mixin.
  \<open>ListTensorsMixin.cuda\<close> stores into \<open>self.__list_tensors__\<close>. Without \<open>inplace\<close>,
  \<open>type(self)\<close> is taken to be \<open>ListTensorsInputs\<close>.
\<close>

definition ListTensorsMixin_cpu :: "'a obj \<Rightarrow> bool \<Rightarrow> error + 'a obj \<times> 'a obj option" where
  "ListTensorsMixin_cpu self inplace =
     (case get_list_tensors self of
        Inl e \<Rightarrow> Inl e
      | Inr d \<Rightarrow>
          (case move_list_values CPU d [] of
             Inl e \<Rightarrow> Inl e
           | Inr new_list_tensors \<Rightarrow>
               if inplace
               then (case store_tensors self (as_kwargs new_list_tensors) of
                       Inl e \<Rightarrow> Inl e
                     | Inr self' \<Rightarrow> Inr (self', None))
               else (case ListTensorsInputs (as_kwargs new_list_tensors) of
                       Inl e \<Rightarrow> Inl e
                     | Inr r \<Rightarrow> Inr (self, Some r))))"

definition ListTensorsMixin_cuda :: "'a obj \<Rightarrow> bool \<Rightarrow> error + 'a obj \<times> 'a obj option" where
  "ListTensorsMixin_cuda self inplace =
     (case get_list_tensors self of
        Inl e \<Rightarrow> Inl e
      | Inr d \<Rightarrow>
          (case move_list_values CUDA d [] of
             Inl e \<Rightarrow> Inl e
           | Inr new_list_tensors \<Rightarrow>
               if inplace
               then (case store_list_tensors self new_list_tensors of
                       Inl e \<Rightarrow> Inl e
                     | Inr self' \<Rightarrow> Inr (self', None))
               else (case ListTensorsInputs (as_kwargs new_list_tensors) of
                       Inl e \<Rightarrow> Inl e
                     | Inr r \<Rightarrow> Inr (self, Some r))))"

section \<open>CombineTensorsMixin\<close>

text \<open>
  \<open>CombineTensorsMixin.__init__\<close> stores its two arguments and runs both
  \<open>__post_init__\<close> methods, that of \<open>TensorsMixin\<close> first. It is the constructor \<open>cls\<close> of
  the combined bundles; \<open>cls()\<close> passes two empty dictionaries.
\<close>

definition CombineTensorsMixin_init ::
  "'a pyobj pydict \<Rightarrow> 'a pyobj pydict \<Rightarrow> error + 'a obj" where
  "CombineTensorsMixin_init dict_of_tensors dict_of_list_tensors =
     (case TensorsMixin_post_init
             \<lparr>tensors_attr = Some dict_of_tensors, list_tensors_attr = None\<rparr> of
        Inl e \<Rightarrow> Inl e
      | Inr self \<Rightarrow> ListTensorsMixin_post_init self (Some dict_of_list_tensors))"

fun check_mix_keys :: "string list \<Rightarrow> string list \<Rightarrow> 'a obj list \<Rightarrow> error + unit" where
  "check_mix_keys tks lks [] = Inr ()"
| "check_mix_keys tks lks (b # bs) =
     (case get_tensors b of
        Inl e \<Rightarrow> Inl e
      | Inr d \<Rightarrow>
          if tks \<noteq> keys d then Inl AssertionError
          else
            (case get_list_tensors b of
               Inl e \<Rightarrow> Inl e
             | Inr l \<Rightarrow>
                 if lks \<noteq> keys l then Inl AssertionError else check_mix_keys tks lks bs))"

text \<open>
  The second loop of \<open>CombineTensorsMixin.stack\<close>: \<open>new_list_tensors[key] = new_list_tensor\<close>
  stores the gathered lists themselves, a list of lists.
\<close>

fun stack_mix_lists_loop ::
  "string list \<Rightarrow> 'a obj list \<Rightarrow> 'a pyobj pydict \<Rightarrow> error + 'a pyobj pydict" where
  "stack_mix_lists_loop [] bs new_list_tensors = Inr new_list_tensors"
| "stack_mix_lists_loop (key # ks) bs new_list_tensors =
     (case gather_lists key bs of
        Inl e \<Rightarrow> Inl e
      | Inr new_list_tensor \<Rightarrow>
          stack_mix_lists_loop ks bs
            (setitem new_list_tensors key (PList (map PList new_list_tensor))))"


definition CombineTensorsMixin_stack ::
  "('a pyobj pydict \<Rightarrow> 'a pyobj pydict \<Rightarrow> error + 'a obj) \<Rightarrow> 'a obj list \<Rightarrow> int \<Rightarrow> error + 'a obj" where
  "CombineTensorsMixin_stack cls list_of_mix_tensors dim =
     (if length list_of_mix_tensors = 0 then cls [] []
      else
        (case get_tensors (hd list_of_mix_tensors) of
           Inl e \<Rightarrow> Inl e
         | Inr first_tensors \<Rightarrow>
        (case get_list_tensors (hd list_of_mix_tensors) of
           Inl e \<Rightarrow> Inl e
         | Inr first_list_tensors \<Rightarrow>
        (case check_mix_keys (keys first_tensors) (keys first_list_tensors)
                list_of_mix_tensors of
           Inl e \<Rightarrow> Inl e
         | Inr _ \<Rightarrow>
        (case new_tensors_loop py_stack (keys first_tensors) list_of_mix_tensors dim [] of
           Inl e \<Rightarrow> Inl e
         | Inr new_tensors \<Rightarrow>
        (case stack_mix_lists_loop (keys first_list_tensors) list_of_mix_tensors [] of
           Inl e \<Rightarrow> Inl e
         | Inr new_list_tensors \<Rightarrow>
             cls new_tensors new_list_tensors))))))"


section \<open>Generation wrappers\<close>

text \<open>
  \<open>generate\<close> calls the decoder of the wrapped library and repackages its
  \<open>sequences\<close> tensor. The decoder is outside this repository: its result is the argument
  \<open>out_sequences\<close> of the functions below. The tensor operations used for the
  repackaging are modelled on shapes and row-major data, as above; element types
  (\<open>.long()\<close>) are not modelled.
\<close>

definition numel :: "'a tensor \<Rightarrow> nat" where
  "numel t = prod_list (shape t)"

text \<open>\<open>t.size(-1)\<close> and \<open>t.size(0)\<close>\<close>

definition size_last :: "'a tensor \<Rightarrow> error + nat" where
  "size_last t = (if shape t = [] then Inl IndexError else Inr (last (shape t)))"

definition size_first :: "'a tensor \<Rightarrow> error + nat" where
  "size_first t = (if shape t = [] then Inl IndexError else Inr (hd (shape t)))"

text \<open>
  \<open>t.reshape(-1, d1, ..., dk)\<close>: the first size is inferred from the number of elements.
  The library refuses a negative size, an inferred size that is ambiguous (the given sizes
  multiply to 0) and a number of elements that the given sizes do not divide.
\<close>

definition reshape_infer :: "'a tensor \<Rightarrow> int list \<Rightarrow> error + 'a tensor" where
  "reshape_infer t dims =
     (if \<exists>d \<in> set dims. d < 0 then Inl RuntimeError
      else
        (let known = prod_list (map nat dims)
         in if known = 0 \<or> numel t mod known \<noteq> 0 then Inl RuntimeError
            else Inr (Tensor (device t) ((numel t div known) # map nat dims) (data t))))"

text \<open>\<open>torch.zeros(*sizes).to(device=dv)\<close>\<close>

definition torch_zeros :: "int list \<Rightarrow> device \<Rightarrow> error + ('a::zero) tensor" where
  "torch_zeros sizes dv =
     (if \<exists>d \<in> set sizes. d < 0 then Inl RuntimeError
      else Inr (Tensor dv (map nat sizes) (replicate (prod_list (map nat sizes)) 0)))"

text \<open>
  A bound of a Python slice on a dimension of size \<open>n\<close>: a negative bound counts from the
  end, and every bound is clipped to the dimension.
\<close>

definition slice_bound :: "int \<Rightarrow> nat \<Rightarrow> nat" where
  "slice_bound i n = (if i < 0 then nat (max 0 (i + int n)) else min (nat i) n)"

text \<open>\<open>t[..., start:stop]\<close>: the slice of the last dimension.\<close>

definition slice_last :: "'a tensor \<Rightarrow> int \<Rightarrow> int \<Rightarrow> error + 'a tensor" where
  "slice_last t start stop =
     (if shape t = [] then Inl IndexError
      else
        (let n = last (shape t);
             lo = slice_bound start n;
             hi = max lo (slice_bound stop n);
             rows = prod_list (butlast (shape t))
         in Inr (Tensor (device t) (butlast (shape t) @ [hi - lo])
                  (concat (map (\<lambda>i. take (hi - lo) (drop lo (chunk n i (data t))))
                     [0..<rows])))))"

text \<open>
  \<open>dst[..., :stop].copy_(src)\<close>, giving \<open>dst\<close> after the copy. Both callers pass
  tensors with the same leading dimensions; in the last dimension the source must have the
  width of the slice or width 1, which the library broadcasts.
\<close>

definition copy_last_prefix :: "'a tensor \<Rightarrow> int \<Rightarrow> 'a tensor \<Rightarrow> error + 'a tensor" where
  "copy_last_prefix dst stop src =
     (if shape dst = [] \<or> shape src = [] then Inl IndexError
      else
        (let n = last (shape dst);
             w = slice_bound stop n;
             m = last (shape src);
             rows = prod_list (butlast (shape dst))
         in if butlast (shape src) \<noteq> butlast (shape dst) \<or> (m \<noteq> w \<and> m \<noteq> 1)
            then Inl RuntimeError
            else Inr (Tensor (device dst) (shape dst)
                       (concat (map (\<lambda>i.
                          (if m = w then chunk m i (data src)
                           else replicate w (hd (chunk m i (data src))))
                          @ drop w (chunk n i (data dst)))
                          [0..<rows])))))"

text \<open>
  The body of \<open>ChatGLMForGeneration.generate\<close> after the decoder call;
  \<open>input_seq_length\<close> is \<open>input_ids.size(1)\<close>.
\<close>

definition ChatGLM_generate_sequences ::
  "('a::zero) tensor \<Rightarrow> nat \<Rightarrow> int \<Rightarrow> int \<Rightarrow> error + 'a tensor" where
  "ChatGLM_generate_sequences out_sequences input_seq_length num_return_sequences
     max_gen_seq_length =
     (case size_last out_sequences of
        Inl e \<Rightarrow> Inl e
      | Inr l \<Rightarrow>
     (case reshape_infer out_sequences [num_return_sequences, int l] of
        Inl e \<Rightarrow> Inl e
      | Inr sequences \<Rightarrow>
     (case size_first sequences of
        Inl e \<Rightarrow> Inl e
      | Inr b \<Rightarrow>
     (case torch_zeros [int b, num_return_sequences, max_gen_seq_length] (device sequences) of
        Inl e \<Rightarrow> Inl e
      | Inr buf \<Rightarrow>
     (case slice_last sequences (int input_seq_length) (int l) of
        Inl e \<Rightarrow> Inl e
      | Inr src \<Rightarrow>
     (case copy_last_prefix buf (int l - int input_seq_length) src of
        Inl e \<Rightarrow> Inl e
      | Inr buf' \<Rightarrow>
          if num_return_sequences = 1 then reshape_infer buf' [max_gen_seq_length]
          else Inr buf'))))))"

text \<open>The body of \<open>XProphetNetForGeneration.generate\<close> after the decoder call.\<close>

definition XProphetNet_generate_sequences ::
  "('a::zero) tensor \<Rightarrow> int \<Rightarrow> int \<Rightarrow> error + 'a tensor" where
  "XProphetNet_generate_sequences out_sequences num_return_sequences max_gen_seq_length =
     (case size_last out_sequences of
        Inl e \<Rightarrow> Inl e
      | Inr l \<Rightarrow>
     (case reshape_infer out_sequences [num_return_sequences, int l] of
        Inl e \<Rightarrow> Inl e
      | Inr sequences \<Rightarrow>
     (case size_first sequences of
        Inl e \<Rightarrow> Inl e
      | Inr b \<Rightarrow>
     (case torch_zeros [int b, num_return_sequences, max_gen_seq_length] (device sequences) of
        Inl e \<Rightarrow> Inl e
      | Inr buf \<Rightarrow>
     (case copy_last_prefix buf (int l) sequences of
        Inl e \<Rightarrow> Inl e
      | Inr buf' \<Rightarrow>
          if num_return_sequences = 1 then reshape_infer buf' [max_gen_seq_length]
          else Inr buf')))))"

section \<open>Fields of a container\<close>

text \<open>
  The key list of a bundle and the value of one of its fields, as \<open>dict()\<close> gives them:
  \<open>None\<close> when the bundle has no such attribute or no such key.
\<close>

definition tensor_keys :: "'a obj \<Rightarrow> string list option" where
  "tensor_keys b = map_option keys (tensors_attr b)"

definition tensor_field :: "'a obj \<Rightarrow> string \<Rightarrow> 'a pyobj option" where
  "tensor_field b k = (case tensors_attr b of None \<Rightarrow> None | Some d \<Rightarrow> map_of d k)"

definition list_keys :: "'a obj \<Rightarrow> string list option" where
  "list_keys b = map_option keys (list_tensors_attr b)"

definition list_field :: "'a obj \<Rightarrow> string \<Rightarrow> 'a pyobj list option" where
  "list_field b k = (case list_tensors_attr b of None \<Rightarrow> None | Some d \<Rightarrow> map_of d k)"


section \<open>Dictionaries built key by key\<close>




section \<open>Construction of a list bundle\<close>






section \<open>Merging no bundle\<close>

text \<open>
  Claim C9 says that \<open>union\<close> and \<open>stack\<close> of no bundle raise no error. Called on
  \<open>LossOutputs\<close>, whose constructor needs the argument \<open>loss\<close>, both return \<open>cls()\<close> and
  that call raises \<open>TypeError\<close>.
\<close>

theorem C9_empty_sequence_on_LossOutputs:
  "TensorsMixin_union LossOutputs ([] :: int obj list) 0 = Inl TypeError \<and>
   TensorsMixin_stack LossOutputs ([] :: int obj list) 0 = Inl TypeError"
  by (simp add: TensorsMixin_union_def TensorsMixin_stack_def LossOutputs_def keys_def)

text \<open>
  Claim C9, amended. \<open>union\<close> and \<open>stack\<close> called with an empty sequence of bundles
  return \<open>cls()\<close>. On a class that can be constructed without arguments, as
  \<open>TensorsInputs\<close> and \<open>ListTensorsInputs\<close>, they raise no error and return a container
  whose \<open>dict()\<close> is the empty dictionary. On \<open>LossOutputs\<close>, a dataclass with a required
  field, they raise \<open>TypeError\<close>.
\<close>

theorem C9_empty_sequence_gives_empty_container:
  "(\<exists>r. TensorsMixin_union TensorsInputs [] dim = Inr r \<and> TensorsMixin_dict r = Inr []) \<and>
   (\<exists>r. TensorsMixin_stack TensorsInputs [] dim = Inr r \<and> TensorsMixin_dict r = Inr []) \<and>
   (\<exists>r. ListTensorsMixin_union ListTensorsInputs [] dim = Inr r \<and>
        ListTensorsMixin_dict r = Inr []) \<and>
   (\<exists>r. ListTensorsMixin_stack ListTensorsInputs [] dim = Inr r \<and>
        ListTensorsMixin_dict r = Inr []) \<and>
   TensorsMixin_union LossOutputs [] dim = Inl TypeError \<and>
   TensorsMixin_stack LossOutputs [] dim = Inl TypeError"
  by (simp add: TensorsMixin_union_def TensorsMixin_stack_def ListTensorsMixin_union_def
      ListTensorsMixin_stack_def TensorsInputs_def ListTensorsInputs_def LossOutputs_def
      ListTensorsMixin_post_init_def dict_of_def TensorsMixin_dict_def ListTensorsMixin_dict_def
      get_tensors_def get_list_tensors_def keys_def)

section \<open>Adding a key that is present\<close>

text \<open>
  Claim C2, on the code. A tensor bundle with the field \<open>x\<close> to which a dictionary with
  the same key \<open>x\<close> is added: \<open>add\<close> returns without an error and the bundle is as it was,
  the new value for \<open>x\<close> dropped. The same holds for a list bundle. The claim demands a
  failure here.
\<close>

theorem C2_add_skips_colliding_key:
  "TensorsMixin_add
     \<lparr>tensors_attr = Some [(''x'', PTensor (Tensor CPU [1] [1 :: int]))],
      list_tensors_attr = None\<rparr>
     (ADict [(''x'', PTensor (Tensor CPU [1] [2]))]) =
   Inr \<lparr>tensors_attr = Some [(''x'', PTensor (Tensor CPU [1] [1]))], list_tensors_attr = None\<rparr> \<and>
   ListTensorsMixin_add
     \<lparr>tensors_attr = None,
      list_tensors_attr = Some [(''x'', [PTensor (Tensor CPU [1] [1 :: int])])]\<rparr>
     (ADict [(''x'', PList [PTensor (Tensor CPU [1] [2])])]) =
   Inr \<lparr>tensors_attr = None, list_tensors_attr = Some [(''x'', [PTensor (Tensor CPU [1] [1])])]\<rparr>"
  by (simp add: TensorsMixin_add_def ListTensorsMixin_add_def get_tensors_def
      get_list_tensors_def contains_def keys_def)

section \<open>Moving a list bundle to the CPU in place\<close>

text \<open>
  Claim C3, on the code. \<open>cpu(inplace=True)\<close> on a list bundle whose field \<open>x\<close> holds one
  CUDA tensor raises \<open>AttributeError\<close>: the store goes to \<open>__tensors__\<close>, which a list
  bundle does not have. On a combined bundle the moved list lands in \<open>__tensors__\<close> and
  \<open>__list_tensors__\<close> keeps the CUDA tensor. \<open>cuda(inplace=True)\<close>, the sibling method,
  updates \<open>__list_tensors__\<close> as the claim says.
\<close>

theorem C3_list_cpu_inplace_misses_list_tensors:
  "ListTensorsMixin_cpu
     \<lparr>tensors_attr = None,
      list_tensors_attr = Some [(''x'', [PTensor (Tensor CUDA [1] [7 :: int])])]\<rparr>
     True = Inl AttributeError \<and>
   ListTensorsMixin_cpu
     \<lparr>tensors_attr = Some [],
      list_tensors_attr = Some [(''x'', [PTensor (Tensor CUDA [1] [7 :: int])])]\<rparr>
     True =
   Inr (\<lparr>tensors_attr = Some [(''x'', PList [PTensor (Tensor CPU [1] [7])])],
         list_tensors_attr = Some [(''x'', [PTensor (Tensor CUDA [1] [7])])]\<rparr>, None) \<and>
   ListTensorsMixin_cuda
     \<lparr>tensors_attr = None,
      list_tensors_attr = Some [(''x'', [PTensor (Tensor CPU [1] [7 :: int])])]\<rparr>
     True =
   Inr (\<lparr>tensors_attr = None,
         list_tensors_attr = Some [(''x'', [PTensor (Tensor CUDA [1] [7])])]\<rparr>, None)"
  by (simp add: ListTensorsMixin_cpu_def ListTensorsMixin_cuda_def get_tensors_def
      get_list_tensors_def as_kwargs_def)

section \<open>Key checks and the loops over the keys\<close>

lemma check_keys_Inr:
  "check_keys ks bs = Inr u \<longleftrightarrow> (\<forall>b \<in> set bs. tensor_keys b = Some ks)"
  by (induction bs)
     (auto simp: get_tensors_def tensor_keys_def split: option.splits)

lemma check_keys_Inl:
  "\<forall>b \<in> set bs. tensors_attr b \<noteq> None \<Longrightarrow> check_keys ks bs = Inl e \<Longrightarrow> e = AssertionError"
  by (induction bs)
     (auto simp: get_tensors_def split: option.splits if_splits)

lemma gather_Inr_D:
  "gather k bs = Inr vs \<Longrightarrow> list_all2 (\<lambda>b v. tensor_field b k = Some v) bs vs"
  by (induction bs arbitrary: vs)
     (auto simp: get_tensors_def getitem_def tensor_field_def split: option.splits sum.splits)


lemma gather_Inl:
  "gather k bs = Inl e \<Longrightarrow> e = AttributeError \<or> e = KeyError"
  by (induction bs)
     (auto simp: get_tensors_def getitem_def split: option.splits sum.splits)

lemma the_tensors_Inl: "the_tensors vs = Inl e \<Longrightarrow> e = TypeError"
  by (induction vs rule: the_tensors.induct) (auto split: sum.splits)

lemma wrap_dim_Inl: "wrap_dim dim n = Inl e \<Longrightarrow> e = IndexError"
  by (simp add: wrap_dim_def split: if_splits)

lemma torch_stack_Inl: "torch_stack ts dim = Inl e \<Longrightarrow> e = RuntimeError \<or> e = IndexError"
  by (auto simp: torch_stack_def dest: wrap_dim_Inl split: if_splits sum.splits)

lemma torch_cat_Inl: "torch_cat ts dim = Inl e \<Longrightarrow> e = RuntimeError \<or> e = IndexError"
  by (auto simp: torch_cat_def dest: wrap_dim_Inl split: if_splits sum.splits list.splits)

lemma py_cat_Inl: "py_cat vs dim = Inl e \<Longrightarrow> e \<noteq> AssertionError"
  by (auto simp: py_cat_def dest: the_tensors_Inl torch_cat_Inl split: sum.splits)

lemma py_stack_Inl: "py_stack vs dim = Inl e \<Longrightarrow> e \<noteq> AssertionError"
  by (auto simp: py_stack_def dest: the_tensors_Inl torch_stack_Inl split: sum.splits)

lemma new_tensors_loop_Inl:
  "new_tensors_loop op ks bs dim new = Inl e \<Longrightarrow>
   \<exists>k \<in> set ks. gather k bs = Inl e \<or> (\<exists>vs. gather k bs = Inr vs \<and> op vs dim = Inl e)"
  by (induction ks arbitrary: new) (auto split: sum.splits)


lemma new_tensors_loop_not_assert:
  assumes "\<And>vs e. op vs dim = Inl e \<Longrightarrow> e \<noteq> AssertionError"
  shows "new_tensors_loop op ks bs dim new \<noteq> Inl AssertionError"
proof
  assume "new_tensors_loop op ks bs dim new = Inl AssertionError"
  then obtain k where "gather k bs = Inl AssertionError \<or>
      (\<exists>vs. gather k bs = Inr vs \<and> op vs dim = Inl AssertionError)"
    by (blast dest: new_tensors_loop_Inl)
  then show False using assms by (auto dest: gather_Inl)
qed

lemma cat_loop_not_assert: "new_tensors_loop py_cat ks bs dim new \<noteq> Inl AssertionError"
  by (rule new_tensors_loop_not_assert) (rule py_cat_Inl)

lemma stack_loop_not_assert: "new_tensors_loop py_stack ks bs dim new \<noteq> Inl AssertionError"
  by (rule new_tensors_loop_not_assert) (rule py_stack_Inl)

section \<open>Key lists that differ\<close>

text \<open>
  Claim C4. For a non-empty sequence of tensor bundles: if the key list of some bundle
  differs from that of the first (other keys, or the same keys in another order),
  \<open>union\<close> and \<open>stack\<close> raise \<open>AssertionError\<close> and return nothing; if all key lists are
  the key list of the first, neither of them raises \<open>AssertionError\<close>.
\<close>

theorem C4_key_mismatch_fails_fast:
  assumes "bs \<noteq> []" and "\<forall>b \<in> set bs. tensors_attr b \<noteq> None"
  shows "if \<forall>b \<in> set bs. tensor_keys b = tensor_keys (hd bs)
         then TensorsMixin_union TensorsInputs bs dim \<noteq> Inl AssertionError \<and>
              TensorsMixin_stack TensorsInputs bs dim \<noteq> Inl AssertionError
         else TensorsMixin_union TensorsInputs bs dim = Inl AssertionError \<and>
              TensorsMixin_stack TensorsInputs bs dim = Inl AssertionError"
proof -
  from assms obtain d where d: "tensors_attr (hd bs) = Some d" by (cases bs) auto
  then have hd_keys: "tensor_keys (hd bs) = Some (keys d)" by (simp add: tensor_keys_def)
  have same: "(\<forall>b \<in> set bs. tensor_keys b = tensor_keys (hd bs)) \<longleftrightarrow>
              check_keys (keys d) bs = Inr ()"
    by (simp only: hd_keys check_keys_Inr)
  from assms(1) d have union:
    "TensorsMixin_union TensorsInputs bs dim =
       (case check_keys (keys d) bs of
          Inl e \<Rightarrow> Inl e
        | Inr u \<Rightarrow>
            (case new_tensors_loop py_cat (keys d) bs dim [] of
               Inl e \<Rightarrow> Inl e
             | Inr new_tensors \<Rightarrow> TensorsInputs new_tensors))"
    by (simp add: TensorsMixin_union_def get_tensors_def)
  from assms(1) d have stack:
    "TensorsMixin_stack TensorsInputs bs dim =
       (case check_keys (keys d) bs of
          Inl e \<Rightarrow> Inl e
        | Inr u \<Rightarrow>
            (case new_tensors_loop py_stack (keys d) bs dim [] of
               Inl e \<Rightarrow> Inl e
             | Inr new_tensors \<Rightarrow> TensorsInputs new_tensors))"
    by (simp add: TensorsMixin_stack_def get_tensors_def)
  show ?thesis
  proof (cases "check_keys (keys d) bs")
    case (Inl e)
    with assms(2) have "e = AssertionError" by (blast dest: check_keys_Inl)
    with Inl have fails: "check_keys (keys d) bs = Inl AssertionError" by simp
    then have c: "\<not> (\<forall>b \<in> set bs. tensor_keys b = tensor_keys (hd bs))"
      by (simp only: same) simp
    from fails union stack
    have r: "TensorsMixin_union TensorsInputs bs dim = Inl AssertionError \<and>
             TensorsMixin_stack TensorsInputs bs dim = Inl AssertionError"
      by simp
    show ?thesis unfolding if_not_P [OF c] by (rule r)
  next
    case (Inr u)
    then have passes: "check_keys (keys d) bs = Inr ()" by simp
    then have c: "\<forall>b \<in> set bs. tensor_keys b = tensor_keys (hd bs)"
      by (simp only: same)
    have u: "TensorsMixin_union TensorsInputs bs dim \<noteq> Inl AssertionError"
      using cat_loop_not_assert [of "keys d" bs dim "[]"]
      by (auto simp: union passes TensorsInputs_def split: sum.splits)
    have s: "TensorsMixin_stack TensorsInputs bs dim \<noteq> Inl AssertionError"
      using stack_loop_not_assert [of "keys d" bs dim "[]"]
      by (auto simp: stack passes TensorsInputs_def split: sum.splits)
    show ?thesis unfolding if_P [OF c] using u s by (rule conjI)
  qed
qed

theorem C4_key_mismatch_fails_fast_witness:
  "TensorsMixin_union TensorsInputs
     [\<lparr>tensors_attr = Some [(''x'', PTensor (Tensor CPU [1] [1 :: int])),
                            (''y'', PTensor (Tensor CPU [1] [2]))],
       list_tensors_attr = None\<rparr>,
      \<lparr>tensors_attr = Some [(''y'', PTensor (Tensor CPU [1] [3])),
                            (''x'', PTensor (Tensor CPU [1] [4]))],
       list_tensors_attr = None\<rparr>] 0 = Inl AssertionError \<and>
   TensorsMixin_stack TensorsInputs
     [\<lparr>tensors_attr = Some [(''x'', PTensor (Tensor CPU [1] [1 :: int])),
                            (''y'', PTensor (Tensor CPU [1] [2]))],
       list_tensors_attr = None\<rparr>,
      \<lparr>tensors_attr = Some [(''y'', PTensor (Tensor CPU [1] [3])),
                            (''x'', PTensor (Tensor CPU [1] [4]))],
       list_tensors_attr = None\<rparr>] 0 = Inl AssertionError \<and>
   TensorsMixin_union TensorsInputs
     [\<lparr>tensors_attr = Some [(''x'', PTensor (Tensor CPU [1] [1 :: int]))],
       list_tensors_attr = None\<rparr>,
      \<lparr>tensors_attr = Some [(''x'', PTensor (Tensor CPU [2] [3, 4]))],
       list_tensors_attr = None\<rparr>] 0 \<noteq> Inl AssertionError \<and>
   TensorsMixin_stack TensorsInputs
     [\<lparr>tensors_attr = Some [(''x'', PTensor (Tensor CPU [1] [1 :: int]))],
       list_tensors_attr = None\<rparr>,
      \<lparr>tensors_attr = Some [(''x'', PTensor (Tensor CPU [2] [3, 4]))],
       list_tensors_attr = None\<rparr>] 0 \<noteq> Inl AssertionError"
  using
    C4_key_mismatch_fails_fast
      [of "[\<lparr>tensors_attr = Some [(''x'', PTensor (Tensor CPU [1] [1 :: int])),
                                  (''y'', PTensor (Tensor CPU [1] [2]))],
             list_tensors_attr = None\<rparr>,
            \<lparr>tensors_attr = Some [(''y'', PTensor (Tensor CPU [1] [3])),
                                  (''x'', PTensor (Tensor CPU [1] [4]))],
             list_tensors_attr = None\<rparr>]" 0]
    C4_key_mismatch_fails_fast
      [of "[\<lparr>tensors_attr = Some [(''x'', PTensor (Tensor CPU [1] [1 :: int]))],
             list_tensors_attr = None\<rparr>,
            \<lparr>tensors_attr = Some [(''x'', PTensor (Tensor CPU [2] [3, 4]))],
             list_tensors_attr = None\<rparr>]" 0]
  by (simp add: tensor_keys_def keys_def)

section \<open>The loops of the list bundles\<close>


lemma gather_lists_Inr_D:
  "gather_lists k bs = Inr vs \<Longrightarrow> list_all2 (\<lambda>b v. list_field b k = Some v) bs vs"
  by (induction bs arbitrary: vs)
     (auto simp: get_list_tensors_def getitem_def list_field_def split: option.splits sum.splits)

lemma gather_lists_Inr_I:
  "list_all2 (\<lambda>b v. list_field b k = Some v) bs vs \<Longrightarrow> gather_lists k bs = Inr vs"
  by (induction bs vs rule: list_all2_induct)
     (auto simp: get_list_tensors_def getitem_def list_field_def split: option.splits)

lemma map_of_key_Some: "k \<in> set (keys d) \<Longrightarrow> \<exists>v. map_of d k = Some v"
  by (induction d) (auto simp: keys_def)

lemma list_field_defined:
  "list_keys b = Some ks \<Longrightarrow> k \<in> set ks \<Longrightarrow> \<exists>xs. list_field b k = Some xs"
  by (auto simp: list_keys_def list_field_def dest: map_of_key_Some split: option.splits)

lemma gather_lists_total:
  assumes "\<forall>b \<in> set bs. list_keys b = Some ks" and "k \<in> set ks"
  shows "gather_lists k bs = Inr (map (\<lambda>b. the (list_field b k)) bs)"
proof (rule gather_lists_Inr_I)
  have "\<forall>b \<in> set bs. list_field b k = Some (the (list_field b k))"
  proof
    fix b assume "b \<in> set bs"
    with assms obtain xs where "list_field b k = Some xs"
      by (blast dest: list_field_defined)
    then show "list_field b k = Some (the (list_field b k))" by simp
  qed
  then show "list_all2 (\<lambda>b v. list_field b k = Some v) bs (map (\<lambda>b. the (list_field b k)) bs)"
    by (simp add: list_all2_conv_all_nth)
qed











section \<open>Stacking list bundles\<close>



section \<open>Stacking combined bundles\<close>

lemma check_mix_keys_Inr:
  "check_mix_keys tks lks bs = Inr u \<longleftrightarrow>
   (\<forall>b \<in> set bs. tensor_keys b = Some tks \<and> list_keys b = Some lks)"
  by (induction bs)
     (auto simp: get_tensors_def get_list_tensors_def tensor_keys_def list_keys_def
           split: option.splits)

lemma check_mix_keys_Inl:
  "\<forall>b \<in> set bs. tensors_attr b \<noteq> None \<and> list_tensors_attr b \<noteq> None \<Longrightarrow>
   check_mix_keys tks lks bs = Inl e \<Longrightarrow> e = AssertionError"
  by (induction bs)
     (auto simp: get_tensors_def get_list_tensors_def split: option.splits if_splits)

lemma setitem_all:
  "list_all (\<lambda>(k, v). P v) d \<Longrightarrow> P v \<Longrightarrow> list_all (\<lambda>(k, v). P v) (setitem d k v)"
  by (induction d) auto

lemma setitem_not_empty: "setitem d k v \<noteq> []"
  by (cases d) (auto split: if_splits)

lemma gather_lists_length: "gather_lists k bs = Inr vs \<Longrightarrow> length vs = length bs"
  by (induction bs arbitrary: vs) (auto split: sum.splits)

lemma stack_mix_lists_loop_lists:
  assumes "bs \<noteq> []"
  shows "\<forall>k \<in> set ks. \<exists>vs. gather_lists k bs = Inr vs \<Longrightarrow>
   list_all (\<lambda>(k, v). \<exists>x xs. v = PList (PList x # xs)) new \<Longrightarrow>
   ks \<noteq> [] \<or> new \<noteq> [] \<Longrightarrow>
   \<exists>res. stack_mix_lists_loop ks bs new = Inr res \<and> res \<noteq> [] \<and>
         list_all (\<lambda>(k, v). \<exists>x xs. v = PList (PList x # xs)) res"
proof (induction ks arbitrary: new)
  case Nil
  then show ?case by simp
next
  case (Cons k ks)
  from Cons.prems(1) obtain vs where vs: "gather_lists k bs = Inr vs" by auto
  with assms have "vs \<noteq> []" by (auto dest: gather_lists_length)
  then obtain x xs where "map PList vs = PList x # xs" by (cases vs) auto
  with Cons.prems(2)
  have "list_all (\<lambda>(k, v). \<exists>x xs. v = PList (PList x # xs))
          (setitem new k (PList (map PList vs)))"
    by (intro setitem_all) auto
  moreover have "\<forall>k \<in> set ks. \<exists>vs. gather_lists k bs = Inr vs" using Cons.prems(1) by simp
  ultimately have "\<exists>res. stack_mix_lists_loop ks bs (setitem new k (PList (map PList vs))) =
      Inr res \<and> res \<noteq> [] \<and> list_all (\<lambda>(k, v). \<exists>x xs. v = PList (PList x # xs)) res"
    by (intro Cons.IH) (simp_all add: setitem_not_empty)
  with vs show ?case by simp
qed

lemma fold_normalize_lists:
  "list_all (\<lambda>(k, v). \<exists>x xs. v = PList (PList x # xs)) d \<Longrightarrow>
   list_all (\<lambda>(k, v). \<exists>x xs. v = PList (PList x # xs)) acc \<Longrightarrow>
   d \<noteq> [] \<or> acc \<noteq> [] \<Longrightarrow>
   fold (\<lambda>(key, value) d. setitem d key (normalize_value value)) d acc \<noteq> [] \<and>
   list_all (\<lambda>(k, v). \<exists>x xs. v = PList (PList x # xs))
     (fold (\<lambda>(key, value) d. setitem d key (normalize_value value)) d acc)"
proof (induction d arbitrary: acc)
  case Nil
  then show ?case by simp
next
  case (Cons kv d)
  obtain k v where kv: "kv = (k, v)" by (cases kv)
  with Cons.prems(1) obtain x xs where v: "v = PList (PList x # xs)" by auto
  with Cons.prems(2)
  have "list_all (\<lambda>(k, v). \<exists>x xs. v = PList (PList x # xs)) (setitem acc k (normalize_value v))"
    by (intro setitem_all) auto
  moreover from Cons.prems(1) have "list_all (\<lambda>(k, v). \<exists>x xs. v = PList (PList x # xs)) d"
    by simp
  ultimately show ?case using kv
    by (simp add: Cons.IH setitem_not_empty)
qed

lemma post_init_assert_lists:
  "d \<noteq> [] \<Longrightarrow> list_all (\<lambda>(k, v). \<exists>x xs. v = PList (PList x # xs)) d \<Longrightarrow>
   post_init_assert d = Inl AssertionError"
  by (cases d) auto

lemma ListTensorsMixin_post_init_lists:
  assumes "d \<noteq> []" and "list_all (\<lambda>(k, v). \<exists>x xs. v = PList (PList x # xs)) d"
  shows "ListTensorsMixin_post_init self (Some d) = Inl AssertionError"
proof -
  from assms
  have "fold (\<lambda>(key, value) d. setitem d key (normalize_value value)) d [] \<noteq> [] \<and>
        list_all (\<lambda>(k, v). \<exists>x xs. v = PList (PList x # xs))
          (fold (\<lambda>(key, value) d. setitem d key (normalize_value value)) d [])"
    by (intro fold_normalize_lists) simp_all
  then have "post_init_assert
      (fold (\<lambda>(key, value) d. setitem d key (normalize_value value)) d []) = Inl AssertionError"
    by (intro post_init_assert_lists) simp_all
  then show ?thesis by (simp add: ListTensorsMixin_post_init_def)
qed

lemma CombineTensorsMixin_init_lists:
  assumes "d \<noteq> []" and "list_all (\<lambda>(k, v). \<exists>x xs. v = PList (PList x # xs)) d"
  shows "CombineTensorsMixin_init t d = Inl AssertionError"
  using ListTensorsMixin_post_init_lists [OF assms]
  by (simp add: CombineTensorsMixin_init_def TensorsMixin_post_init_def get_tensors_def
      split: sum.splits)

lemma list_field_key:
  "list_field b k = Some xs \<Longrightarrow> list_keys b = Some lks \<Longrightarrow> k \<in> set lks"
  by (force simp: list_field_def list_keys_def keys_def dest!: map_of_SomeD
      split: option.splits)

lemma combined_stack_fails:
  assumes ne: "bs \<noteq> []"
    and comb: "\<forall>b \<in> set bs. tensors_attr b \<noteq> None \<and> list_tensors_attr b \<noteq> None"
    and field: "\<exists>b \<in> set bs. \<exists>k xs. list_field b k = Some xs"
  shows "CombineTensorsMixin_stack CombineTensorsMixin_init bs dim = Inl AssertionError \<or>
         (\<exists>e. TensorsMixin_stack TensorsInputs bs dim = Inl e \<and> CombineTensorsMixin_stack CombineTensorsMixin_init bs dim = Inl e)"
proof -
  from ne comb obtain d0 l0 where hd0: "tensors_attr (hd bs) = Some d0"
    "list_tensors_attr (hd bs) = Some l0"
    by (cases bs) auto
  define tks where "tks = keys d0"
  define lks where "lks = keys l0"
  from ne hd0 have comb_unfold:
    "CombineTensorsMixin_stack CombineTensorsMixin_init bs dim =
       (case check_mix_keys tks lks bs of
          Inl e \<Rightarrow> Inl e
        | Inr u \<Rightarrow>
       (case new_tensors_loop py_stack tks bs dim [] of
          Inl e \<Rightarrow> Inl e
        | Inr new_tensors \<Rightarrow>
       (case stack_mix_lists_loop lks bs [] of
          Inl e \<Rightarrow> Inl e
        | Inr new_list_tensors \<Rightarrow> CombineTensorsMixin_init new_tensors new_list_tensors)))"
    unfolding tks_def lks_def
    by (simp add: CombineTensorsMixin_stack_def get_tensors_def get_list_tensors_def)
  from ne hd0 have stack_unfold:
    "TensorsMixin_stack TensorsInputs bs dim =
       (case check_keys tks bs of
          Inl e \<Rightarrow> Inl e
        | Inr u \<Rightarrow>
            (case new_tensors_loop py_stack tks bs dim [] of
               Inl e \<Rightarrow> Inl e
             | Inr new_tensors \<Rightarrow> TensorsInputs new_tensors))"
    unfolding tks_def by (simp add: TensorsMixin_stack_def get_tensors_def)
  show ?thesis
  proof (cases "check_mix_keys tks lks bs")
    case (Inl e)
    with comb have "e = AssertionError" by (blast dest: check_mix_keys_Inl)
    with Inl show ?thesis by (simp add: comb_unfold)
  next
    case (Inr u)
    then have same: "\<forall>b \<in> set bs. tensor_keys b = Some tks \<and> list_keys b = Some lks"
      by (simp add: check_mix_keys_Inr)
    then have passes: "check_keys tks bs = Inr ()" by (simp add: check_keys_Inr)
    show ?thesis
    proof (cases "new_tensors_loop py_stack tks bs dim []")
      case (Inl e)
      with Inr passes show ?thesis by (simp add: comb_unfold stack_unfold)
    next
      case new_tensors: (Inr nt)
      from field same obtain k where "k \<in> set lks" by (blast dest: list_field_key)
      then have "lks \<noteq> []" by auto
      moreover from same have "\<forall>k \<in> set lks. \<exists>vs. gather_lists k bs = Inr vs"
        using gather_lists_total [of bs lks] by blast
      ultimately obtain nl where nl: "stack_mix_lists_loop lks bs [] = Inr nl" "nl \<noteq> []"
        "list_all (\<lambda>(k, v). \<exists>x xs. v = PList (PList x # xs)) nl"
        using stack_mix_lists_loop_lists [OF ne, of lks "[]"] by auto
      then have "CombineTensorsMixin_init nt nl = Inl AssertionError"
        by (intro CombineTensorsMixin_init_lists)
      with Inr new_tensors nl(1) show ?thesis by (simp add: comb_unfold)
    qed
  qed
qed

text \<open>
  Claim C10 says that the failure is always an \<open>AssertionError\<close>. Two combined bundles
  whose tensor field \<open>x\<close> has the shapes \<open>(2,)\<close> and \<open>(3,)\<close>, each with a list field \<open>y\<close> of
  one tensor: \<open>torch.stack\<close> refuses the tensors of \<open>x\<close> before the result is constructed,
  and the error is a \<open>RuntimeError\<close>.
\<close>

theorem C10_combined_stack_other_error:
  "CombineTensorsMixin_stack CombineTensorsMixin_init
     [\<lparr>tensors_attr = Some [(''x'', PTensor (Tensor CPU [2] [1, 2 :: int]))],
       list_tensors_attr = Some [(''y'', [PTensor (Tensor CPU [1] [5])])]\<rparr>,
      \<lparr>tensors_attr = Some [(''x'', PTensor (Tensor CPU [3] [1, 2, 3]))],
       list_tensors_attr = Some [(''y'', [PTensor (Tensor CPU [1] [6])])]\<rparr>] 0 =
   Inl RuntimeError"
  by (simp add: CombineTensorsMixin_stack_def get_tensors_def get_list_tensors_def keys_def
      getitem_def py_stack_def torch_stack_def wrap_dim_def same_shape_def)

text \<open>
  Claim C10, amended. For a non-empty sequence of combined bundles in which some list
  field holds a non-empty list, \<open>CombineTensorsMixin.stack\<close> never returns a container: it
  raises \<open>AssertionError\<close> (from a key check, or from the element check of
  \<open>ListTensorsMixin.__post_init__\<close> on the unflattened lists), unless stacking the tensor
  fields fails, as \<open>TensorsMixin.stack\<close> on the same bundles shows, and then it raises that
  error.
\<close>

theorem C10_combined_stack_never_returns:
  assumes "bs \<noteq> []"
    and "\<forall>b \<in> set bs. tensors_attr b \<noteq> None \<and> list_tensors_attr b \<noteq> None"
    and "\<exists>b \<in> set bs. \<exists>k xs. list_field b k = Some xs \<and> xs \<noteq> []"
  shows "CombineTensorsMixin_stack CombineTensorsMixin_init bs dim = Inl AssertionError \<or>
         (\<exists>e. TensorsMixin_stack TensorsInputs bs dim = Inl e \<and> CombineTensorsMixin_stack CombineTensorsMixin_init bs dim = Inl e)"
proof -
  from assms(3) have "\<exists>b \<in> set bs. \<exists>k xs. list_field b k = Some xs" by blast
  with assms(1,2) show ?thesis by (rule combined_stack_fails)
qed

theorem C10_combined_stack_never_returns_witness:
  "CombineTensorsMixin_stack CombineTensorsMixin_init
     [\<lparr>tensors_attr = Some [(''x'', PTensor (Tensor CPU [2] [1, 2 :: int]))],
       list_tensors_attr = Some [(''y'', [PTensor (Tensor CPU [1] [5])])]\<rparr>,
      \<lparr>tensors_attr = Some [(''x'', PTensor (Tensor CPU [2] [3, 4]))],
       list_tensors_attr = Some [(''y'', [PTensor (Tensor CPU [1] [6])])]\<rparr>] 0 =
   Inl AssertionError \<and>
   TensorsMixin_stack TensorsInputs
     [\<lparr>tensors_attr = Some [(''x'', PTensor (Tensor CPU [2] [1, 2 :: int]))],
       list_tensors_attr = Some [(''y'', [PTensor (Tensor CPU [1] [5])])]\<rparr>,
      \<lparr>tensors_attr = Some [(''x'', PTensor (Tensor CPU [2] [3, 4]))],
       list_tensors_attr = Some [(''y'', [PTensor (Tensor CPU [1] [6])])]\<rparr>] 0 =
   Inr \<lparr>tensors_attr = Some [(''x'', PTensor (Tensor CPU [2, 2] [1, 2, 3, 4]))],
        list_tensors_attr = None\<rparr>"
proof -
  have stacked: "TensorsMixin_stack TensorsInputs
     [\<lparr>tensors_attr = Some [(''x'', PTensor (Tensor CPU [2] [1, 2 :: int]))],
       list_tensors_attr = Some [(''y'', [PTensor (Tensor CPU [1] [5])])]\<rparr>,
      \<lparr>tensors_attr = Some [(''x'', PTensor (Tensor CPU [2] [3, 4]))],
       list_tensors_attr = Some [(''y'', [PTensor (Tensor CPU [1] [6])])]\<rparr>] 0 =
   Inr \<lparr>tensors_attr = Some [(''x'', PTensor (Tensor CPU [2, 2] [1, 2, 3, 4]))],
        list_tensors_attr = None\<rparr>"
    by (simp add: TensorsMixin_stack_def get_tensors_def keys_def getitem_def py_stack_def
        torch_stack_def wrap_dim_def same_shape_def same_device_def stack_result_def chunk_def
        TensorsInputs_def dict_of_def)
  have "CombineTensorsMixin_stack CombineTensorsMixin_init
     [\<lparr>tensors_attr = Some [(''x'', PTensor (Tensor CPU [2] [1, 2 :: int]))],
       list_tensors_attr = Some [(''y'', [PTensor (Tensor CPU [1] [5])])]\<rparr>,
      \<lparr>tensors_attr = Some [(''x'', PTensor (Tensor CPU [2] [3, 4]))],
       list_tensors_attr = Some [(''y'', [PTensor (Tensor CPU [1] [6])])]\<rparr>] 0 =
   Inl AssertionError"
    using C10_combined_stack_never_returns
      [of "[\<lparr>tensors_attr = Some [(''x'', PTensor (Tensor CPU [2] [1, 2 :: int]))],
             list_tensors_attr = Some [(''y'', [PTensor (Tensor CPU [1] [5])])]\<rparr>,
            \<lparr>tensors_attr = Some [(''x'', PTensor (Tensor CPU [2] [3, 4]))],
             list_tensors_attr = Some [(''y'', [PTensor (Tensor CPU [1] [6])])]\<rparr>]" 0]
    unfolding stacked
    by (simp add: list_field_def)
  with stacked show ?thesis by simp
qed

section \<open>The union of two bundles\<close>




















section \<open>Blocks of row-major data\<close>

lemma concat_chunks: "concat (map (\<lambda>j. chunk m j xs) [0..<n]) = take (n * m) xs"
proof (induction n)
  case 0
  then show ?case by simp
next
  case (Suc n)
  have "take (n * m) xs @ take m (drop (n * m) xs) = take (n * m + m) xs"
    by (simp add: take_add)
  with Suc show ?case by (simp add: chunk_def add.commute)
qed

lemma length_concat_blocks:
  "\<forall>j < n. length (f j) = m \<Longrightarrow> length (concat (map f [0..<n])) = n * m"
  by (induction n) simp_all

lemma chunk_concat_blocks:
  "\<forall>j < n. length (f j) = m \<Longrightarrow> i < n \<Longrightarrow> chunk m i (concat (map f [0..<n])) = f i"
proof (induction n)
  case 0
  then show ?case by simp
next
  case (Suc n)
  from Suc.prems have len: "length (concat (map f [0..<n])) = n * m"
    by (intro length_concat_blocks) simp
  from Suc.prems have last: "length (f n) = m" by simp
  show ?case
  proof (cases "i < n")
    case True
    with Suc have IH: "chunk m i (concat (map f [0..<n])) = f i" by simp
    from True have "Suc i \<le> n" by simp
    then have "Suc i * m \<le> n * m" by (rule mult_le_mono1)
    then have "i * m + m \<le> n * m" by (simp add: add.commute)
    with len have "take m (drop (i * m) (concat (map f [0..<n]) @ f n)) =
                   take m (drop (i * m) (concat (map f [0..<n])))"
      by simp
    with IH show ?thesis by (simp add: chunk_def)
  next
    case False
    with Suc.prems have "i = n" by simp
    with len last show ?thesis by (simp add: chunk_def)
  qed
qed



lemma length_chunk: "Suc i * m \<le> length xs \<Longrightarrow> length (chunk m i xs) = m"
  by (simp add: chunk_def)

section \<open>Stacking, then slicing\<close>









section \<open>The fixed-width buffer of the generation wrappers\<close>

lemma reshape_infer_ok:
  assumes "\<forall>d \<in> set dims. 0 \<le> d" and "0 < prod_list (map nat dims)"
    and "numel t mod prod_list (map nat dims) = 0"
  shows "reshape_infer t dims =
         Inr (Tensor (device t) ((numel t div prod_list (map nat dims)) # map nat dims) (data t))"
proof -
  from assms(1) have "\<not> (\<exists>d \<in> set dims. d < 0)" by (auto simp: not_less)
  with assms(2,3) show ?thesis by (simp add: reshape_infer_def Let_def)
qed

lemma chunk_replicate: "Suc j * m \<le> k \<Longrightarrow> chunk m j (replicate k x) = replicate m x"
proof -
  assume "Suc j * m \<le> k"
  then have "m \<le> k - j * m" by simp
  then show ?thesis by (simp add: chunk_def min_def)
qed

lemma rows_of: "n mod R = 0 \<Longrightarrow> n div R * R = (n :: nat)"
  by (simp add: mod_eq_0_iff_dvd)

lemma slice_last_rows:
  assumes "shape t = pre @ [l]" and "P \<le> l"
  shows "slice_last t (int P) (int l) =
         Inr (Tensor (device t) (pre @ [l - P])
               (concat (map (\<lambda>i. take (l - P) (drop P (chunk l i (data t))))
                  [0..<prod_list pre])))"
  using assms by (simp add: slice_last_def slice_bound_def Let_def max_def min_def)

lemma copy_last_prefix_rows:
  assumes "shape dst = pre @ [M]" and "shape src = pre @ [w]" and "w \<le> M"
  shows "copy_last_prefix dst (int w) src =
         Inr (Tensor (device dst) (shape dst)
               (concat (map (\<lambda>i. chunk w i (data src) @ drop w (chunk M i (data dst)))
                  [0..<prod_list pre])))"
  using assms by (simp add: copy_last_prefix_def slice_bound_def Let_def min_def)

lemma padded_rows:
  fixes xs :: "'a::zero list"
  assumes len: "length xs = n * l" and P: "P \<le> l" and fit: "l - P \<le> M"
    and src: "src = concat (map (\<lambda>i. take (l - P) (drop P (chunk l i xs))) [0..<n])"
    and j: "j < n"
  shows "chunk M j (concat (map (\<lambda>i. chunk (l - P) i src @
                                      drop (l - P) (chunk M i (replicate (n * M) 0)))
                              [0..<n])) =
         drop P (chunk l j xs) @ replicate (M - (l - P)) 0"
proof -
  have full: "length (chunk l i xs) = l" if "i < n" for i
  proof -
    from that have "Suc i \<le> n" by simp
    then have "Suc i * l \<le> n * l" by (rule mult_le_mono1)
    with len show ?thesis by (intro length_chunk) simp
  qed
  have tail: "take (l - P) (drop P (chunk l i xs)) = drop P (chunk l i xs)" if "i < n" for i
    using full [OF that] by simp
  have src_row: "chunk (l - P) i src = drop P (chunk l i xs)" if "i < n" for i
  proof -
    have "chunk (l - P) i src = take (l - P) (drop P (chunk l i xs))"
      unfolding src using full that by (intro chunk_concat_blocks) simp_all
    with tail [OF that] show ?thesis by simp
  qed
  have zeros: "chunk M i (replicate (n * M) (0 :: 'a)) = replicate M 0" if "i < n" for i
  proof -
    from that have "Suc i \<le> n" by simp
    then have "Suc i * M \<le> n * M" by (rule mult_le_mono1)
    then show ?thesis by (rule chunk_replicate)
  qed
  have row: "chunk (l - P) i src @ drop (l - P) (chunk M i (replicate (n * M) (0 :: 'a))) =
             drop P (chunk l i xs) @ replicate (M - (l - P)) 0" if "i < n" for i
    using src_row [OF that] zeros [OF that] by simp
  have row_len: "length (chunk (l - P) i src @
                         drop (l - P) (chunk M i (replicate (n * M) (0 :: 'a)))) = M"
    if "i < n" for i
    using full [OF that] fit by (simp add: row [OF that])
  have "chunk M j (concat (map (\<lambda>i. chunk (l - P) i src @
                                      drop (l - P) (chunk M i (replicate (n * M) (0 :: 'a))))
                              [0..<n])) =
        chunk (l - P) j src @ drop (l - P) (chunk M j (replicate (n * M) 0))"
    using row_len j by (intro chunk_concat_blocks) simp_all
  with row [OF j] show ?thesis by simp
qed

lemma ChatGLM_generate_result:
  fixes out :: "'a::zero tensor"
  assumes shp: "shape out = [n, l]" and wf: "wf_tensor out"
    and R: "0 < R" and rows: "n mod R = 0" and l: "0 < l" and M: "0 < M"
    and P: "P \<le> l" and fit: "l - P \<le> M"
  shows "\<exists>res. ChatGLM_generate_sequences out P (int R) (int M) = Inr res \<and>
           shape res = (if R = 1 then [n div R, M] else [n div R, R, M]) \<and>
           (\<forall>j < n. chunk M j (data res) =
              drop P (chunk l j (data out)) @ replicate (M - (l - P)) 0)"
proof -
  define b where "b = n div R"
  define dv where "dv = device out"
  from rows have bR: "b * R = n" by (simp add: b_def rows_of)
  define sequences where "sequences = Tensor dv [b, R, l] (data out)"
  define buf :: "'a tensor" where "buf = Tensor dv [b, R, M] (replicate (n * M) 0)"
  define src where "src = concat (map (\<lambda>i. take (l - P) (drop P (chunk l i (data out)))) [0..<n])"
  define packed where "packed = concat (map (\<lambda>i. chunk (l - P) i src @
      drop (l - P) (chunk M i (replicate (n * M) (0 :: 'a)))) [0..<n])"
  from shp have s1: "size_last out = Inr l" by (simp add: size_last_def)
  have "numel out = b * (R * l)" using shp bR by (simp add: numel_def mult.assoc [symmetric])
  with R l have s2: "reshape_infer out [int R, int l] = Inr sequences"
    using reshape_infer_ok [of "[int R, int l]" out]
    by (simp add: sequences_def dv_def)
  have s3: "size_first sequences = Inr b" by (simp add: size_first_def sequences_def)
  have "b * (R * M) = n * M" using bR by (simp add: mult.assoc [symmetric])
  then have s4: "torch_zeros [int b, int R, int M] (device sequences) = Inr buf"
    by (simp add: torch_zeros_def buf_def sequences_def)
  have s5: "slice_last sequences (int P) (int l) = Inr (Tensor dv [b, R, l - P] src)"
    using slice_last_rows [of sequences "[b, R]" l P] P bR
    by (simp add: sequences_def src_def)
  from P have diff: "int l - int P = int (l - P)" by simp
  have s6: "copy_last_prefix buf (int (l - P)) (Tensor dv [b, R, l - P] src) =
            Inr (Tensor dv [b, R, M] packed)"
    using copy_last_prefix_rows [of buf "[b, R]" M "Tensor dv [b, R, l - P] src" "l - P"] fit bR
    by (simp add: buf_def packed_def)
  have body: "ChatGLM_generate_sequences out P (int R) (int M) =
              (if int R = 1 then reshape_infer (Tensor dv [b, R, M] packed) [int M]
               else Inr (Tensor dv [b, R, M] packed))"
    by (simp add: ChatGLM_generate_sequences_def s1 s2 s3 s4 s5 diff s6)
  from wf shp have len: "length (data out) = n * l" by (simp add: wf_tensor_def)
  have rows_ok: "\<forall>j < n. chunk M j packed =
                   drop P (chunk l j (data out)) @ replicate (M - (l - P)) 0"
    unfolding packed_def using len P fit src_def by (intro allI impI padded_rows)
  show ?thesis
  proof (cases "R = 1")
    case True
    with M have "reshape_infer (Tensor dv [b, R, M] packed) [int M] =
                 Inr (Tensor dv [b, M] packed)"
      using reshape_infer_ok [of "[int M]" "Tensor dv [b, R, M] packed"]
      by (simp add: numel_def)
    with True body rows_ok show ?thesis by (simp add: b_def)
  next
    case False
    with body rows_ok show ?thesis by (simp add: b_def)
  qed
qed

lemma XProphetNet_generate_result:
  fixes out :: "'a::zero tensor"
  assumes shp: "shape out = [n, l]" and wf: "wf_tensor out"
    and R: "0 < R" and rows: "n mod R = 0" and l: "0 < l" and M: "0 < M"
    and fit: "l \<le> M"
  shows "\<exists>res. XProphetNet_generate_sequences out (int R) (int M) = Inr res \<and>
           shape res = (if R = 1 then [n div R, M] else [n div R, R, M]) \<and>
           (\<forall>j < n. chunk M j (data res) = chunk l j (data out) @ replicate (M - l) 0)"
proof -
  define b where "b = n div R"
  define dv where "dv = device out"
  from rows have bR: "b * R = n" by (simp add: b_def rows_of)
  define sequences where "sequences = Tensor dv [b, R, l] (data out)"
  define buf :: "'a tensor" where "buf = Tensor dv [b, R, M] (replicate (n * M) 0)"
  define packed where "packed = concat (map (\<lambda>i. chunk l i (data out) @
      drop l (chunk M i (replicate (n * M) (0 :: 'a)))) [0..<n])"
  from wf shp have len: "length (data out) = n * l" by (simp add: wf_tensor_def)
  from shp have s1: "size_last out = Inr l" by (simp add: size_last_def)
  have "numel out = b * (R * l)" using shp bR by (simp add: numel_def mult.assoc [symmetric])
  with R l have s2: "reshape_infer out [int R, int l] = Inr sequences"
    using reshape_infer_ok [of "[int R, int l]" out]
    by (simp add: sequences_def dv_def)
  have s3: "size_first sequences = Inr b" by (simp add: size_first_def sequences_def)
  have "b * (R * M) = n * M" using bR by (simp add: mult.assoc [symmetric])
  then have s4: "torch_zeros [int b, int R, int M] (device sequences) = Inr buf"
    by (simp add: torch_zeros_def buf_def sequences_def)
  have s5: "copy_last_prefix buf (int l) sequences = Inr (Tensor dv [b, R, M] packed)"
    using copy_last_prefix_rows [of buf "[b, R]" M sequences l] fit bR
    by (simp add: buf_def packed_def sequences_def)
  have body: "XProphetNet_generate_sequences out (int R) (int M) =
              (if int R = 1 then reshape_infer (Tensor dv [b, R, M] packed) [int M]
               else Inr (Tensor dv [b, R, M] packed))"
    by (simp add: XProphetNet_generate_sequences_def s1 s2 s3 s4 s5)
  have whole: "data out = concat (map (\<lambda>i. take (l - 0) (drop 0 (chunk l i (data out)))) [0..<n])"
  proof -
    have "take l (chunk l i (data out)) = chunk l i (data out)" for i
      by (simp add: chunk_def)
    then have "concat (map (\<lambda>i. take (l - 0) (drop 0 (chunk l i (data out)))) [0..<n]) =
               concat (map (\<lambda>i. chunk l i (data out)) [0..<n])"
      by simp
    also have "\<dots> = take (n * l) (data out)" by (rule concat_chunks)
    also from len have "\<dots> = data out" by simp
    finally show ?thesis by simp
  qed
  have rows_ok: "\<forall>j < n. chunk M j packed = chunk l j (data out) @ replicate (M - l) 0"
  proof (intro allI impI)
    fix j assume "j < n"
    with padded_rows [of "data out" n l 0 M "data out" j] len fit whole
    show "chunk M j packed = chunk l j (data out) @ replicate (M - l) 0"
      by (simp add: packed_def)
  qed
  show ?thesis
  proof (cases "R = 1")
    case True
    with M have "reshape_infer (Tensor dv [b, R, M] packed) [int M] =
                 Inr (Tensor dv [b, M] packed)"
      using reshape_infer_ok [of "[int M]" "Tensor dv [b, R, M] packed"]
      by (simp add: numel_def)
    with True body rows_ok show ?thesis by (simp add: b_def)
  next
    case False
    with body rows_ok show ?thesis by (simp add: b_def)
  qed
qed

text \<open>
  Claim C5. The decoder returns \<open>n\<close> rows of \<open>l\<close> tokens, \<open>n\<close> a multiple of
  \<open>num_return_sequences\<close>. For ChatGLM a row starts with the prompt of \<open>P\<close> tokens and
  has at most \<open>P + max_gen_seq_length\<close> tokens; for XProphetNet it has at most
  \<open>max_gen_seq_length\<close> tokens. Then the wrapper returns a tensor of last width
  \<open>M = max_gen_seq_length\<close>: its \<open>j\<close>-th row is the \<open>j\<close>-th row of the decoder (without
  the prompt for ChatGLM) from position 0 on, followed by zeros; the shape is
  \<open>(batch, M)\<close> when \<open>num_return_sequences\<close> is 1 and \<open>(batch, num_return_sequences, M)\<close>
  otherwise.
\<close>

theorem C5_generate_fixed_width:
  fixes out :: "'a::zero tensor"
  assumes "shape out = [n, l]" and "wf_tensor out"
    and "0 < R" and "n mod R = 0" and "0 < l" and "0 < M"
  shows "(P \<le> l \<and> l \<le> P + M \<longrightarrow>
          (\<exists>res. ChatGLM_generate_sequences out P (int R) (int M) = Inr res \<and>
             shape res = (if R = 1 then [n div R, M] else [n div R, R, M]) \<and>
             (\<forall>j < n. chunk M j (data res) =
                drop P (chunk l j (data out)) @ replicate (M - (l - P)) 0))) \<and>
         (l \<le> M \<longrightarrow>
          (\<exists>res. XProphetNet_generate_sequences out (int R) (int M) = Inr res \<and>
             shape res = (if R = 1 then [n div R, M] else [n div R, R, M]) \<and>
             (\<forall>j < n. chunk M j (data res) = chunk l j (data out) @ replicate (M - l) 0)))"
proof (intro conjI impI)
  assume "P \<le> l \<and> l \<le> P + M"
  then have "P \<le> l" "l - P \<le> M" by arith+
  with assms show "\<exists>res. ChatGLM_generate_sequences out P (int R) (int M) = Inr res \<and>
             shape res = (if R = 1 then [n div R, M] else [n div R, R, M]) \<and>
             (\<forall>j < n. chunk M j (data res) =
                drop P (chunk l j (data out)) @ replicate (M - (l - P)) 0)"
    by (rule ChatGLM_generate_result)
next
  assume "l \<le> M"
  with assms show "\<exists>res. XProphetNet_generate_sequences out (int R) (int M) = Inr res \<and>
             shape res = (if R = 1 then [n div R, M] else [n div R, R, M]) \<and>
             (\<forall>j < n. chunk M j (data res) = chunk l j (data out) @ replicate (M - l) 0)"
    by (rule XProphetNet_generate_result)
qed

theorem C5_generate_fixed_width_witness:
  "(\<exists>res. ChatGLM_generate_sequences (Tensor CPU [2, 4] [1, 2, 3, 4, 5, 6, 7, 8 :: int]) 1 1 5 =
            Inr res \<and>
          shape res = [2, 5] \<and>
          chunk 5 0 (data res) = [2, 3, 4, 0, 0] \<and> chunk 5 1 (data res) = [6, 7, 8, 0, 0]) \<and>
   (\<exists>res. XProphetNet_generate_sequences (Tensor CPU [2, 4] [1, 2, 3, 4, 5, 6, 7, 8 :: int]) 2 5 =
            Inr res \<and>
          shape res = [1, 2, 5] \<and>
          chunk 5 0 (data res) = [1, 2, 3, 4, 0] \<and> chunk 5 1 (data res) = [5, 6, 7, 8, 0])"
proof -
  let ?out = "Tensor CPU [2, 4] [1, 2, 3, 4, 5, 6, 7, 8 :: int]"
  have shp: "shape ?out = [2, 4]" and wf: "wf_tensor ?out"
    by (simp_all add: wf_tensor_def)
  have rows: "chunk 4 0 (data ?out) = [1, 2, 3, 4]" "chunk 4 1 (data ?out) = [5, 6, 7, 8]"
    by (simp_all add: chunk_def)
  have "(1 :: nat) \<le> 4 \<and> (4 :: nat) \<le> 1 + 5" by simp
  with C5_generate_fixed_width [of ?out 2 4 1 5 1, OF shp wf]
  obtain res where res: "ChatGLM_generate_sequences ?out 1 (int 1) (int 5) = Inr res"
      "shape res = [2, 5]"
    and all: "\<forall>j < 2. chunk 5 j (data res) =
                drop 1 (chunk 4 j (data ?out)) @ replicate (5 - (4 - 1)) 0"
    by auto
  from all have "chunk 5 0 (data res) = drop 1 (chunk 4 0 (data ?out)) @ replicate (5 - (4 - 1)) 0"
    and "chunk 5 1 (data res) = drop 1 (chunk 4 1 (data ?out)) @ replicate (5 - (4 - 1)) 0"
    by simp_all
  then have "chunk 5 0 (data res) = [2, 3, 4, 0, 0]" "chunk 5 1 (data res) = [6, 7, 8, 0, 0]"
    by (simp_all only: rows) (simp_all add: numeral_eq_Suc)
  with res have first: "\<exists>res. ChatGLM_generate_sequences ?out 1 1 5 = Inr res \<and>
          shape res = [2, 5] \<and>
          chunk 5 0 (data res) = [2, 3, 4, 0, 0] \<and> chunk 5 1 (data res) = [6, 7, 8, 0, 0]"
    by simp
  have "(4 :: nat) \<le> 5" by simp
  with C5_generate_fixed_width [of ?out 2 4 2 5 0, OF shp wf]
  obtain res' where res': "XProphetNet_generate_sequences ?out (int 2) (int 5) = Inr res'"
      "shape res' = [1, 2, 5]"
    and all': "\<forall>j < 2. chunk 5 j (data res') = chunk 4 j (data ?out) @ replicate (5 - 4) 0"
    by auto
  from all' have "chunk 5 0 (data res') = chunk 4 0 (data ?out) @ replicate (5 - 4) 0"
    and "chunk 5 1 (data res') = chunk 4 1 (data ?out) @ replicate (5 - 4) 0"
    by simp_all
  then have "chunk 5 0 (data res') = [1, 2, 3, 4, 0]" "chunk 5 1 (data res') = [5, 6, 7, 8, 0]"
    by (simp_all only: rows) simp_all
  with res' have "\<exists>res. XProphetNet_generate_sequences ?out 2 5 = Inr res \<and>
          shape res = [1, 2, 5] \<and>
          chunk 5 0 (data res) = [1, 2, 3, 4, 0] \<and> chunk 5 1 (data res) = [5, 6, 7, 8, 0]"
    by simp
  with first show ?thesis by blast
qed

end
